theory Spec2Isabelle
  imports Main "HOL-Library.Word"
begin

unbundle bit_operations_syntax

section \<open>The Android windowed app context of Xenia\<close>

text \<open>
  A shallow embedding of \<^verbatim>\<open>src/xenia/ui/windowed_app_context_android.cc\<close>.
  Every member function becomes a function from the fields of the object (and from the
  answers of the operating system, the JNI and the application to the calls it makes) to
  the fields afterwards and the list of external calls it has made, in program order.
  Member names lose their trailing underscore, which Isabelle does not accept.
\<close>

subsection \<open>Data\<close>

text \<open>Pointers and JNI references: an address, 0 being the null pointer.\<close>

type_synonym pointer = nat

abbreviation nullptr :: pointer where
  "nullptr \<equiv> 0"

text \<open>
  The commands sent through the pipe. The enumeration is declared in the class header,
  which lists \<^verbatim>\<open>kDestroy\<close> and \<^verbatim>\<open>kExecutePendingFunctions\<close>; \<open>kUnlisted\<close> stands for
  any other value of the underlying type that a read may leave in the buffer.
\<close>

datatype UIThreadLooperCallbackCommand = kDestroy | kExecutePendingFunctions | kUnlisted

text \<open>
  The calls that leave the object: system calls, looper calls, JNI calls, the hooks of
  the application, the members of the base class \<^verbatim>\<open>WindowedAppContext\<close>, logging, and
  the release of the object's storage at the end of a \<^verbatim>\<open>delete\<close>.
\<close>

datatype event =
    SysWrite int UIThreadLooperCallbackCommand
  | SysRead int
  | SysClose int
  | SysPipe
  | ALooper_wake pointer
  | ALooper_acquire pointer
  | ALooper_release pointer
  | ALooper_addFd pointer int
  | ALooper_removeFd pointer int
  | NewGlobalRef pointer
  | DeleteGlobalRef pointer
  | DeleteLocalRef pointer
  | CallVoidMethod pointer pointer
  | AConfiguration_fromAssetManager pointer pointer
  | AConfiguration_delete pointer
  | InitializeAndroidAppFromMainThread int
  | ShutdownAndroidAppFromMainThread
  | ReleaseStringUTFChars pointer
  | AppCreator
  | OnInitialize pointer
  | InvokeOnDestroy pointer
  | AppReset pointer
  | QuitFromUIThread
  | ExecutePendingFunctionsFromUIThread
  | LogError string
  | OperatorNew
  | OperatorDelete

text \<open>The data members of \<^verbatim>\<open>AndroidWindowedAppContext\<close> that the file uses.\<close>

record AndroidWindowedAppContext =
  ui_thread_jni_env :: pointer
  asset_manager_jobject :: pointer
  asset_manager :: pointer
  configuration :: pointer
  android_base_initialized :: bool
  activity :: pointer
  activity_class :: pointer
  activity_method_finish :: pointer
  activity_window :: pointer
  ui_thread_looper :: pointer
  ui_thread_looper_callback_pipe :: "int \<times> int"
  ui_thread_looper_callback_registered :: bool
  app :: pointer

text \<open>
  The event bits of \<^verbatim>\<open><android/looper.h>\<close> (Android NDK), as \<^verbatim>\<open>int\<close> values.
\<close>

definition ALOOPER_EVENT_INPUT :: "32 word" where
  "ALOOPER_EVENT_INPUT = 1"

definition ALOOPER_EVENT_OUTPUT :: "32 word" where
  "ALOOPER_EVENT_OUTPUT = 2"

definition ALOOPER_EVENT_ERROR :: "32 word" where
  "ALOOPER_EVENT_ERROR = 4"

definition ALOOPER_EVENT_HANGUP :: "32 word" where
  "ALOOPER_EVENT_HANGUP = 8"

definition ALOOPER_EVENT_INVALID :: "32 word" where
  "ALOOPER_EVENT_INVALID = 16"

text \<open>The messages of the log calls (\<^verbatim>\<open>XELOGE\<close>, \<^verbatim>\<open>__android_log_write\<close>), word for word.\<close>

definition message_write_pending_functions :: string where
  "message_write_pending_functions =
    ''AndroidWindowedAppContext: Failed to write a pending function execution command to the UI thread looper callback pipe''"

definition message_identifier_string :: string where
  "message_identifier_string =
    ''Failed to get the UTF-8 string for the windowed app identifier''"

definition message_creator :: string where
  "message_creator =
    ''Failed to get the creator for the windowed app %s''"

definition message_asset_manager_reference :: string where
  "message_asset_manager_reference =
    ''Failed to create a global reference to the asset manager''"

definition message_asset_manager :: string where
  "message_asset_manager =
    ''Failed to create get the AAssetManager''"

definition message_configuration :: string where
  "message_configuration =
    ''Failed to create an AConfiguration''"

definition message_activity_reference :: string where
  "message_activity_reference =
    ''AndroidWindowedAppContext: Failed to create a global reference to the activity''"

definition message_activity_class :: string where
  "message_activity_class =
    ''AndroidWindowedAppContext: Failed to get the activity class''"

definition message_activity_class_reference :: string where
  "message_activity_class_reference =
    ''AndroidWindowedAppContext: Failed to create a global reference to the activity class''"

definition message_activity_class_ids :: string where
  "message_activity_class_ids =
    ''AndroidWindowedAppContext: Failed to get the activity class IDs''"

definition message_looper :: string where
  "message_looper =
    ''AndroidWindowedAppContext: Failed to get the UI thread looper''"

definition message_pipe :: string where
  "message_pipe =
    ''AndroidWindowedAppContext: Failed to create the UI thread looper callback pipe''"

definition message_add_callback :: string where
  "message_add_callback =
    ''AndroidWindowedAppContext: Failed to add the callback to the UI thread looper''"

definition message_write_destruction :: string where
  "message_write_destruction =
    ''AndroidWindowedAppContext: Failed to write a destruction command to the UI thread looper callback pipe''"

definition message_polling_error :: string where
  "message_polling_error =
    ''AndroidWindowedAppContext: The UI thread looper callback pipe file descriptor has encountered an error condition during polling''"

definition message_reading_error :: string where
  "message_reading_error =
    ''AndroidWindowedAppContext: The UI thread looper callback pipe file descriptor has encountered an error condition during reading''"

subsection \<open>Shutdown and the destructor\<close>

text \<open>
  A member function returns the fields afterwards and the calls it made. \<open>then_do\<close>
  runs the next statement on the fields the previous ones left and appends its calls.
\<close>

type_synonym effect = "AndroidWindowedAppContext \<times> event list"

definition then_do :: "effect \<Rightarrow> (AndroidWindowedAppContext \<Rightarrow> effect) \<Rightarrow> effect" where
  "then_do st f = (let (s', t') = f (fst st) in (s', snd st @ t'))"

text \<open>
  \<^verbatim>\<open>if (app_) { app_->InvokeOnDestroy(); app_.reset(); }\<close>, the opening statement of
  both \<^verbatim>\<open>Shutdown\<close> and \<^verbatim>\<open>JniActivityOnDestroy\<close>. \<^verbatim>\<open>reset()\<close> destroys the
  application, which is the event \<open>AppReset\<close>.
\<close>

definition destroy_app :: "AndroidWindowedAppContext \<Rightarrow> effect" where
  "destroy_app s =
    (if app s \<noteq> nullptr
     then (s\<lparr>app := nullptr\<rparr>, [InvokeOnDestroy (app s), AppReset (app s)])
     else (s, []))"

text \<open>The statements of \<^verbatim>\<open>Shutdown\<close> (lines 224 to 279), one definition per block.\<close>

definition clear_activity_window :: "AndroidWindowedAppContext \<Rightarrow> effect" where
  \<comment> \<open>\<^verbatim>\<open>assert_null(activity_window_)\<close> is a debug assertion and does nothing here\<close>
  "clear_activity_window s = (s\<lparr>activity_window := nullptr\<rparr>, [])"

definition remove_looper_callback :: "AndroidWindowedAppContext \<Rightarrow> effect" where
  "remove_looper_callback s =
    (if ui_thread_looper_callback_registered s
     then (s\<lparr>ui_thread_looper_callback_registered := False\<rparr>,
           [ALooper_removeFd (ui_thread_looper s) (fst (ui_thread_looper_callback_pipe s))])
     else (s, []))"

definition close_pipe_fd :: "int \<Rightarrow> int \<times> event list" where
  \<comment> \<open>the body of the loop over the two descriptors\<close>
  "close_pipe_fd pipe_fd = (if pipe_fd = - 1 then (pipe_fd, []) else (- 1, [SysClose pipe_fd]))"

definition close_pipe :: "AndroidWindowedAppContext \<Rightarrow> effect" where
  "close_pipe s =
    (let (fd0, t0) = close_pipe_fd (fst (ui_thread_looper_callback_pipe s));
         (fd1, t1) = close_pipe_fd (snd (ui_thread_looper_callback_pipe s))
     in (s\<lparr>ui_thread_looper_callback_pipe := (fd0, fd1)\<rparr>, t0 @ t1))"

definition release_looper :: "AndroidWindowedAppContext \<Rightarrow> effect" where
  "release_looper s =
    (if ui_thread_looper s \<noteq> nullptr
     then (s\<lparr>ui_thread_looper := nullptr\<rparr>, [ALooper_release (ui_thread_looper s)])
     else (s, []))"

definition clear_activity_method_finish :: "AndroidWindowedAppContext \<Rightarrow> effect" where
  "clear_activity_method_finish s = (s\<lparr>activity_method_finish := nullptr\<rparr>, [])"

definition delete_activity_class :: "AndroidWindowedAppContext \<Rightarrow> effect" where
  "delete_activity_class s =
    (if activity_class s \<noteq> nullptr
     then (s\<lparr>activity_class := nullptr\<rparr>, [DeleteGlobalRef (activity_class s)])
     else (s, []))"

definition delete_activity :: "AndroidWindowedAppContext \<Rightarrow> effect" where
  "delete_activity s =
    (if activity s \<noteq> nullptr
     then (s\<lparr>activity := nullptr\<rparr>, [DeleteGlobalRef (activity s)])
     else (s, []))"

definition shutdown_android_base :: "AndroidWindowedAppContext \<Rightarrow> effect" where
  "shutdown_android_base s =
    (if android_base_initialized s
     then (s\<lparr>android_base_initialized := False\<rparr>, [ShutdownAndroidAppFromMainThread])
     else (s, []))"

definition delete_configuration :: "AndroidWindowedAppContext \<Rightarrow> effect" where
  "delete_configuration s =
    (if configuration s \<noteq> nullptr
     then (s\<lparr>configuration := nullptr\<rparr>, [AConfiguration_delete (configuration s)])
     else (s, []))"

definition delete_asset_manager :: "AndroidWindowedAppContext \<Rightarrow> effect" where
  "delete_asset_manager s =
    (let s1 = s\<lparr>asset_manager := nullptr\<rparr>
     in if asset_manager_jobject s1 \<noteq> nullptr
        then (s1\<lparr>asset_manager_jobject := nullptr\<rparr>, [DeleteGlobalRef (asset_manager_jobject s1)])
        else (s1, []))"

definition clear_jni_env :: "AndroidWindowedAppContext \<Rightarrow> effect" where
  "clear_jni_env s = (s\<lparr>ui_thread_jni_env := nullptr\<rparr>, [])"

definition Shutdown :: "AndroidWindowedAppContext \<Rightarrow> effect" where
  "Shutdown s =
    foldl then_do (s, [])
      [destroy_app, clear_activity_window, remove_looper_callback, close_pipe, release_looper,
       clear_activity_method_finish, delete_activity_class, delete_activity,
       shutdown_android_base, delete_configuration, delete_asset_manager, clear_jni_env]"

text \<open>
  \<^verbatim>\<open>delete\<close> of the context: the destructor, which is \<^verbatim>\<open>Shutdown()\<close>, then the
  release of the storage. The fields returned are those the destructor left.
\<close>

definition delete_context ::
  "AndroidWindowedAppContext \<Rightarrow> effect" where
  "delete_context s = (let (s', t) = Shutdown s in (s', t @ [OperatorDelete]))"

text \<open>Whether a list of calls releases the storage of the object.\<close>

definition deleted :: "event list \<Rightarrow> bool" where
  "deleted t = (OperatorDelete \<in> set t)"

subsection \<open>Sending commands\<close>

text \<open>
  \<open>sz\<close> is \<^verbatim>\<open>sizeof(command)\<close>, a constant of the class header; \<open>w\<close> is what
  \<^verbatim>\<open>write\<close> returns.
\<close>

definition NotifyUILoopOfPendingFunctions ::
  "nat \<Rightarrow> int \<Rightarrow> AndroidWindowedAppContext \<Rightarrow> effect" where
  "NotifyUILoopOfPendingFunctions sz w s =
    (if w \<noteq> int sz
     then (s, [SysWrite (snd (ui_thread_looper_callback_pipe s)) kExecutePendingFunctions,
               LogError message_write_pending_functions])
     else (s, [SysWrite (snd (ui_thread_looper_callback_pipe s)) kExecutePendingFunctions,
               ALooper_wake (ui_thread_looper s)]))"

definition PlatformQuitFromUIThread ::
  "AndroidWindowedAppContext \<Rightarrow> effect" where
  "PlatformQuitFromUIThread s =
    (if activity s \<noteq> nullptr \<and> activity_method_finish s \<noteq> nullptr
     then (s, [CallVoidMethod (activity s) (activity_method_finish s)])
     else (s, []))"

definition RequestDestruction ::
  "nat \<Rightarrow> int \<Rightarrow> AndroidWindowedAppContext \<Rightarrow> effect" where
  "RequestDestruction sz w s =
    (if \<not> ui_thread_looper_callback_registered s then delete_context s
     else if w \<noteq> int sz
     then (let (s', t) = delete_context s
           in (s', [SysWrite (snd (ui_thread_looper_callback_pipe s)) kDestroy,
                    LogError message_write_destruction]
                   @ t))
     else (s, [SysWrite (snd (ui_thread_looper_callback_pipe s)) kDestroy,
               ALooper_wake (ui_thread_looper s)]))"

definition JniActivityOnDestroy ::
  "nat \<Rightarrow> int \<Rightarrow> AndroidWindowedAppContext \<Rightarrow> effect" where
  "JniActivityOnDestroy sz w s = then_do (destroy_app s) (RequestDestruction sz w)"

subsection \<open>The looper callback\<close>

text \<open>
  \<open>fd\<close> and \<open>events\<close> are the arguments of the looper; \<open>r\<close> is what \<^verbatim>\<open>read\<close>
  returns and \<open>command\<close> what it leaves in the buffer. The result is the value returned to
  the looper, the fields afterwards, and the calls made.
\<close>

definition UIThreadLooperCallback ::
  "nat \<Rightarrow> int \<Rightarrow> 32 word \<Rightarrow> int \<Rightarrow> UIThreadLooperCallbackCommand \<Rightarrow>
   AndroidWindowedAppContext \<Rightarrow> int \<times> AndroidWindowedAppContext \<times> event list" where
  "UIThreadLooperCallback sz fd events r command s =
    (if events AND (ALOOPER_EVENT_ERROR OR ALOOPER_EVENT_HANGUP OR ALOOPER_EVENT_INVALID) \<noteq> 0
     then (0, s\<lparr>ui_thread_looper_callback_registered := False\<rparr>,
           [LogError message_polling_error,
            QuitFromUIThread])
     else if events AND ALOOPER_EVENT_INPUT = 0 then (1, s, [])
     else if r = int sz then
       (case command of
          kDestroy \<Rightarrow>
            (let (s', t) = delete_context (s\<lparr>ui_thread_looper_callback_registered := False\<rparr>)
             in (0, s', SysRead fd # t))
        | kExecutePendingFunctions \<Rightarrow> (1, s, [SysRead fd, ExecutePendingFunctionsFromUIThread])
        | kUnlisted \<Rightarrow> (1, s, [SysRead fd]))
     else if r = - 1
     then (0, s\<lparr>ui_thread_looper_callback_registered := False\<rparr>,
           [SysRead fd,
            LogError message_reading_error,
            QuitFromUIThread])
     else (1, s, [SysRead fd]))"

subsection \<open>Initialization\<close>

text \<open>
  What the platform answers to the calls of \<^verbatim>\<open>Initialize\<close>, in the order of the calls:
  the results of \<^verbatim>\<open>NewGlobalRef(asset_manager)\<close>, \<^verbatim>\<open>AAssetManager_fromJava\<close>,
  \<^verbatim>\<open>AConfiguration_new\<close>, \<^verbatim>\<open>AConfiguration_getSdkVersion\<close>, \<^verbatim>\<open>NewGlobalRef(activity)\<close>,
  \<^verbatim>\<open>GetObjectClass\<close>, \<^verbatim>\<open>NewGlobalRef\<close> of the class, \<^verbatim>\<open>GetMethodID\<close> of
  \<^verbatim>\<open>finish\<close>, \<^verbatim>\<open>ALooper_forThread\<close>, \<^verbatim>\<open>pipe\<close> (its return value and the two descriptors
  it stores when it succeeds) and \<^verbatim>\<open>ALooper_addFd\<close>.
\<close>

record platform =
  asset_manager_global_ref :: pointer
  asset_manager_from_java :: pointer
  configuration_new :: pointer
  sdk_version :: int
  activity_global_ref :: pointer
  activity_object_class :: pointer
  activity_class_global_ref :: pointer
  method_id_finish :: pointer
  looper_for_thread :: pointer
  pipe_return :: int
  pipe_descriptors :: "int \<times> int"
  add_fd_return :: int

text \<open>The failure exit of \<^verbatim>\<open>Initialize\<close>: a logged message, \<^verbatim>\<open>Shutdown()\<close>, \<^verbatim>\<open>return false\<close>.\<close>

definition initialize_failed ::
  "AndroidWindowedAppContext \<Rightarrow> event list \<Rightarrow> string \<Rightarrow> bool \<times> AndroidWindowedAppContext \<times> event list"
  where
  "initialize_failed s t message =
    (let (s', t') = Shutdown s in (False, s', t @ [LogError message] @ t'))"

text \<open>
  \<^verbatim>\<open>Initialize\<close>. \<^verbatim>\<open>assert_not_null(ui_thread_looper_)\<close> is a debug assertion and does
  nothing here; the check that follows it is the one modelled. A failing \<^verbatim>\<open>pipe\<close> leaves
  the array as it was.
\<close>

definition Initialize ::
  "platform \<Rightarrow> pointer \<Rightarrow> pointer \<Rightarrow> pointer \<Rightarrow> AndroidWindowedAppContext \<Rightarrow>
   bool \<times> AndroidWindowedAppContext \<times> event list" where
  "Initialize a jni_env activity_arg asset_manager_arg s0 =
    (let s1 = s0\<lparr>ui_thread_jni_env := jni_env,
                  asset_manager_jobject := asset_manager_global_ref a\<rparr>;
         t1 = [NewGlobalRef asset_manager_arg]
     in if asset_manager_jobject s1 = nullptr
        then initialize_failed s1 t1 message_asset_manager_reference
        else
    (let s2 = s1\<lparr>asset_manager := asset_manager_from_java a\<rparr>
     in if asset_manager s2 = nullptr
        then initialize_failed s2 t1 message_asset_manager
        else
    (let s3 = s2\<lparr>configuration := configuration_new a\<rparr>
     in if configuration s3 = nullptr
        then initialize_failed s3 t1 message_configuration
        else
    (let t3 = t1 @ [AConfiguration_fromAssetManager (configuration s3) (asset_manager s3),
                    InitializeAndroidAppFromMainThread (sdk_version a)];
         s4 = s3\<lparr>android_base_initialized := True, activity := activity_global_ref a\<rparr>;
         t4 = t3 @ [NewGlobalRef activity_arg]
     in if activity s4 = nullptr
        then initialize_failed s4 t4
               message_activity_reference
        else if activity_object_class a = nullptr
        then initialize_failed s4 t4
               message_activity_class
        else
    (let s5 = s4\<lparr>activity_class := activity_class_global_ref a\<rparr>;
         t5 = t4 @ [NewGlobalRef (activity_object_class a),
                    DeleteLocalRef (activity_object_class a)]
     in if activity_class s5 = nullptr
        then initialize_failed s5 t5
               message_activity_class_reference
        else
    (let s6 = s5\<lparr>activity_method_finish := method_id_finish a\<rparr>
     in if activity_method_finish s6 = nullptr
        then initialize_failed s6 t5
               message_activity_class_ids
        else
    (let s7 = s6\<lparr>ui_thread_looper := looper_for_thread a\<rparr>
     in if ui_thread_looper s7 = nullptr
        then initialize_failed s7 t5
               message_looper
        else
    (let t7 = t5 @ [ALooper_acquire (ui_thread_looper s7), SysPipe]
     in if pipe_return a \<noteq> 0
        then initialize_failed s7 t7
               message_pipe
        else
    (let s8 = s7\<lparr>ui_thread_looper_callback_pipe := pipe_descriptors a\<rparr>;
         t8 = t7 @ [ALooper_addFd (ui_thread_looper s8) (fst (ui_thread_looper_callback_pipe s8))]
     in if add_fd_return a \<noteq> 1
        then initialize_failed s8 t8
               message_add_callback
        else (True, s8\<lparr>ui_thread_looper_callback_registered := True\<rparr>, t8))))))))))"

text \<open>
  \<^verbatim>\<open>InitializeApp\<close>. \<open>created\<close> is the application the creator returns and
  \<open>initialized\<close> what its \<^verbatim>\<open>OnInitialize()\<close> returns. \<^verbatim>\<open>assert_null(app_)\<close> is a debug
  assertion; assigning to \<^verbatim>\<open>app_\<close> destroys an application it still held. Calling a
  member through a null \<^verbatim>\<open>app_\<close> has no defined behaviour: that is the result
  \<open>NullPointerDereference\<close>.
\<close>

datatype failure = NullPointerDereference

definition InitializeApp ::
  "pointer \<Rightarrow> bool \<Rightarrow> AndroidWindowedAppContext \<Rightarrow>
   failure + bool \<times> AndroidWindowedAppContext \<times> event list" where
  "InitializeApp created initialized s0 =
    (let t1 = AppCreator # (if app s0 \<noteq> nullptr then [AppReset (app s0)] else []);
         s1 = s0\<lparr>app := created\<rparr>
     in if app s1 = nullptr then Inl NullPointerDereference
        else if \<not> initialized
        then Inr (False, s1\<lparr>app := nullptr\<rparr>,
                  t1 @ [OnInitialize (app s1), InvokeOnDestroy (app s1), AppReset (app s1)])
        else Inr (True, s1, t1 @ [OnInitialize (app s1)]))"

text \<open>
  Modelled from the spec: the constructor of \<^verbatim>\<open>AndroidWindowedAppContext\<close>, that is the
  default member initialisers of the class header, which is not among the sources. A new
  Bridge holds no loop handle, no channel, no Application, and is not registered; every
  member has the empty value that \<^verbatim>\<open>Shutdown\<close> resets it to.
\<close>

definition new_context :: AndroidWindowedAppContext where
  "new_context =
    \<lparr>ui_thread_jni_env = nullptr, asset_manager_jobject = nullptr, asset_manager = nullptr,
     configuration = nullptr, android_base_initialized = False, activity = nullptr,
     activity_class = nullptr, activity_method_finish = nullptr, activity_window = nullptr,
     ui_thread_looper = nullptr, ui_thread_looper_callback_pipe = (- 1, - 1),
     ui_thread_looper_callback_registered = False, app = nullptr\<rparr>"

text \<open>
  \<^verbatim>\<open>JniActivityInitializeWindowedAppOnCreate\<close>. \<open>utf_chars\<close> is the result of
  \<^verbatim>\<open>GetStringUTFChars\<close> and \<open>creator_found\<close> says whether \<^verbatim>\<open>WindowedApp::GetCreator\<close>
  returned a creator. The result says whether the returned pointer is the new context
  (rather than null), gives the fields of the context if it still exists when the function
  returns, and the calls made.
\<close>

definition JniActivityInitializeWindowedAppOnCreate ::
  "nat \<Rightarrow> pointer \<Rightarrow> bool \<Rightarrow> platform \<Rightarrow> pointer \<Rightarrow> pointer \<Rightarrow> pointer \<Rightarrow> pointer \<Rightarrow> bool \<Rightarrow> int \<Rightarrow>
   failure + bool \<times> AndroidWindowedAppContext option \<times> event list" where
  "JniActivityInitializeWindowedAppOnCreate sz utf_chars creator_found a jni_env activity_arg
       asset_manager_arg created initialized w =
    (if utf_chars = nullptr
     then Inr (False, None,
               [LogError message_identifier_string])
     else if \<not> creator_found
     then Inr (False, None,
               [LogError message_creator,
                ReleaseStringUTFChars utf_chars])
     else
       (let t0 = [ReleaseStringUTFChars utf_chars, OperatorNew];
            (ok, s1, t1) = Initialize a jni_env activity_arg asset_manager_arg new_context
        in if \<not> ok
           then (let (s2, t2) = delete_context s1 in Inr (False, None, t0 @ t1 @ t2))
           else
             (case InitializeApp created initialized s1 of
                Inl e \<Rightarrow> Inl e
              | Inr (app_ok, s2, t2) \<Rightarrow>
                  if \<not> app_ok
                  then (let (s3, t3) = RequestDestruction sz w s2
                        in Inr (False, if deleted t3 then None else Some s3,
                                t0 @ t1 @ t2 @ t3))
                  else Inr (True, Some s2, t0 @ t1 @ t2))))"

subsection \<open>The life of a context\<close>

text \<open>
  The calls a context receives after its creation, each with the answers it gets: the
  looper invoking the callback, any thread asking for pending functions to run or for the
  destruction, the activity being destroyed, the base class asking to quit.
\<close>

datatype call =
    CallUIThreadLooperCallback int "32 word" int UIThreadLooperCallbackCommand
  | CallNotifyUILoopOfPendingFunctions int
  | CallRequestDestruction int
  | CallJniActivityOnDestroy int
  | CallPlatformQuitFromUIThread

fun perform :: "nat \<Rightarrow> call \<Rightarrow> AndroidWindowedAppContext \<Rightarrow> effect" where
  "perform sz (CallUIThreadLooperCallback fd events r command) s =
     snd (UIThreadLooperCallback sz fd events r command s)"
| "perform sz (CallNotifyUILoopOfPendingFunctions w) s = NotifyUILoopOfPendingFunctions sz w s"
| "perform sz (CallRequestDestruction w) s = RequestDestruction sz w s"
| "perform sz (CallJniActivityOnDestroy w) s = JniActivityOnDestroy sz w s"
| "perform sz CallPlatformQuitFromUIThread s = PlatformQuitFromUIThread s"

text \<open>The calls made during a sequence of calls; it ends when the context is deleted.\<close>

fun run :: "nat \<Rightarrow> AndroidWindowedAppContext \<Rightarrow> call list \<Rightarrow> event list" where
  "run sz s [] = []"
| "run sz s (c # cs) =
     (let (s', t) = perform sz c s in if deleted t then t else t @ run sz s' cs)"

text \<open>Counting the calls of one kind in a list of calls.\<close>

fun is_ALooper_acquire :: "event \<Rightarrow> bool" where
  "is_ALooper_acquire (ALooper_acquire p) = True"
| "is_ALooper_acquire _ = False"

fun is_ALooper_release :: "event \<Rightarrow> bool" where
  "is_ALooper_release (ALooper_release p) = True"
| "is_ALooper_release _ = False"

fun is_InvokeOnDestroy :: "event \<Rightarrow> bool" where
  "is_InvokeOnDestroy (InvokeOnDestroy p) = True"
| "is_InvokeOnDestroy _ = False"

fun is_SysWrite :: "event \<Rightarrow> bool" where
  "is_SysWrite (SysWrite fd c) = True"
| "is_SysWrite _ = False"

fun is_SysClose :: "event \<Rightarrow> bool" where
  "is_SysClose (SysClose fd) = True"
| "is_SysClose _ = False"

text \<open>
  \<^verbatim>\<open>Initialize\<close> reaches \<^verbatim>\<open>ALooper_acquire\<close> when every step before it has succeeded
  and \<^verbatim>\<open>ALooper_forThread\<close> has returned a looper.
\<close>

definition obtains_looper :: "platform \<Rightarrow> bool" where
  "obtains_looper a =
    (asset_manager_global_ref a \<noteq> nullptr \<and> asset_manager_from_java a \<noteq> nullptr \<and>
     configuration_new a \<noteq> nullptr \<and> activity_global_ref a \<noteq> nullptr \<and>
     activity_object_class a \<noteq> nullptr \<and> activity_class_global_ref a \<noteq> nullptr \<and>
     method_id_finish a \<noteq> nullptr \<and> looper_for_thread a \<noteq> nullptr)"

text \<open>
  The calls of a whole life: those of the creation, then those of the calls the context
  receives if it exists when the creation returns.
\<close>

definition life ::
  "nat \<Rightarrow> AndroidWindowedAppContext option \<times> event list \<Rightarrow> call list \<Rightarrow> event list" where
  "life sz created_with cs =
    snd created_with @ (case fst created_with of None \<Rightarrow> [] | Some s \<Rightarrow> run sz s cs)"

section \<open>Properties\<close>

subsection \<open>Shutdown, block by block\<close>

lemma fst_then_do: "fst (then_do st f) = fst (f (fst st))"
  by (simp add: then_do_def split_beta)

lemma snd_then_do: "snd (then_do st f) = snd st @ snd (f (fst st))"
  by (simp add: then_do_def split_beta)

lemma fst_blocks:
  "fst (destroy_app s) = s\<lparr>app := nullptr\<rparr>"
  "fst (clear_activity_window s) = s\<lparr>activity_window := nullptr\<rparr>"
  "fst (remove_looper_callback s) = s\<lparr>ui_thread_looper_callback_registered := False\<rparr>"
  "fst (close_pipe s) = s\<lparr>ui_thread_looper_callback_pipe := (- 1, - 1)\<rparr>"
  "fst (release_looper s) = s\<lparr>ui_thread_looper := nullptr\<rparr>"
  "fst (clear_activity_method_finish s) = s\<lparr>activity_method_finish := nullptr\<rparr>"
  "fst (delete_activity_class s) = s\<lparr>activity_class := nullptr\<rparr>"
  "fst (delete_activity s) = s\<lparr>activity := nullptr\<rparr>"
  "fst (shutdown_android_base s) = s\<lparr>android_base_initialized := False\<rparr>"
  "fst (delete_configuration s) = s\<lparr>configuration := nullptr\<rparr>"
  "fst (delete_asset_manager s) = s\<lparr>asset_manager := nullptr, asset_manager_jobject := nullptr\<rparr>"
  "fst (clear_jni_env s) = s\<lparr>ui_thread_jni_env := nullptr\<rparr>"
  by (simp_all add: destroy_app_def clear_activity_window_def remove_looper_callback_def
      close_pipe_def close_pipe_fd_def release_looper_def clear_activity_method_finish_def
      delete_activity_class_def delete_activity_def shutdown_android_base_def
      delete_configuration_def delete_asset_manager_def clear_jni_env_def Let_def)

lemma snd_blocks:
  "snd (destroy_app s) = (if app s \<noteq> nullptr then [InvokeOnDestroy (app s), AppReset (app s)] else [])"
  "snd (clear_activity_window s) = []"
  "snd (remove_looper_callback s) =
     (if ui_thread_looper_callback_registered s
      then [ALooper_removeFd (ui_thread_looper s) (fst (ui_thread_looper_callback_pipe s))] else [])"
  "snd (close_pipe s) =
     (if fst (ui_thread_looper_callback_pipe s) = - 1 then []
      else [SysClose (fst (ui_thread_looper_callback_pipe s))]) @
     (if snd (ui_thread_looper_callback_pipe s) = - 1 then []
      else [SysClose (snd (ui_thread_looper_callback_pipe s))])"
  "snd (release_looper s) =
     (if ui_thread_looper s \<noteq> nullptr then [ALooper_release (ui_thread_looper s)] else [])"
  "snd (clear_activity_method_finish s) = []"
  "snd (delete_activity_class s) =
     (if activity_class s \<noteq> nullptr then [DeleteGlobalRef (activity_class s)] else [])"
  "snd (delete_activity s) = (if activity s \<noteq> nullptr then [DeleteGlobalRef (activity s)] else [])"
  "snd (shutdown_android_base s) =
     (if android_base_initialized s then [ShutdownAndroidAppFromMainThread] else [])"
  "snd (delete_configuration s) =
     (if configuration s \<noteq> nullptr then [AConfiguration_delete (configuration s)] else [])"
  "snd (delete_asset_manager s) =
     (if asset_manager_jobject s \<noteq> nullptr then [DeleteGlobalRef (asset_manager_jobject s)] else [])"
  "snd (clear_jni_env s) = []"
  by (simp_all add: destroy_app_def clear_activity_window_def remove_looper_callback_def
      close_pipe_def close_pipe_fd_def release_looper_def clear_activity_method_finish_def
      delete_activity_class_def delete_activity_def shutdown_android_base_def
      delete_configuration_def delete_asset_manager_def clear_jni_env_def Let_def)

lemma Shutdown_fields:
  "fst (Shutdown s) =
     s\<lparr>ui_thread_jni_env := nullptr, asset_manager_jobject := nullptr, asset_manager := nullptr,
       configuration := nullptr, android_base_initialized := False, activity := nullptr,
       activity_class := nullptr, activity_method_finish := nullptr, activity_window := nullptr,
       ui_thread_looper := nullptr, ui_thread_looper_callback_pipe := (- 1, - 1),
       ui_thread_looper_callback_registered := False, app := nullptr\<rparr>"
  by (simp add: Shutdown_def fst_then_do fst_blocks)

lemma Shutdown_events:
  "snd (Shutdown s) =
     (if app s \<noteq> nullptr then [InvokeOnDestroy (app s), AppReset (app s)] else []) @
     (if ui_thread_looper_callback_registered s
      then [ALooper_removeFd (ui_thread_looper s) (fst (ui_thread_looper_callback_pipe s))] else []) @
     (if fst (ui_thread_looper_callback_pipe s) = - 1 then []
      else [SysClose (fst (ui_thread_looper_callback_pipe s))]) @
     (if snd (ui_thread_looper_callback_pipe s) = - 1 then []
      else [SysClose (snd (ui_thread_looper_callback_pipe s))]) @
     (if ui_thread_looper s \<noteq> nullptr then [ALooper_release (ui_thread_looper s)] else []) @
     (if activity_class s \<noteq> nullptr then [DeleteGlobalRef (activity_class s)] else []) @
     (if activity s \<noteq> nullptr then [DeleteGlobalRef (activity s)] else []) @
     (if android_base_initialized s then [ShutdownAndroidAppFromMainThread] else []) @
     (if configuration s \<noteq> nullptr then [AConfiguration_delete (configuration s)] else []) @
     (if asset_manager_jobject s \<noteq> nullptr then [DeleteGlobalRef (asset_manager_jobject s)] else [])"
  by (simp add: Shutdown_def fst_then_do snd_then_do fst_blocks snd_blocks split del: if_split cong: if_cong)

lemma Shutdown_twice: "Shutdown (fst (Shutdown s)) = (fst (Shutdown s), [])"
  by (rule prod_eqI) (simp_all add: Shutdown_events Shutdown_fields)


lemma delete_context_fst: "fst (delete_context s) = fst (Shutdown s)"
  by (simp add: delete_context_def split_beta)

lemma delete_context_snd: "snd (delete_context s) = snd (Shutdown s) @ [OperatorDelete]"
  by (simp add: delete_context_def split_beta)

lemma deleted_simps:
  "deleted [] = False"
  "deleted (e # t) = (e = OperatorDelete \<or> deleted t)"
  "deleted (t @ t') = (deleted t \<or> deleted t')"
  by (auto simp: deleted_def)

lemma not_deleted_Shutdown: "\<not> deleted (snd (Shutdown s))"
  by (simp add: Shutdown_events deleted_simps)

lemma deleted_delete_context: "deleted (snd (delete_context s))"
  by (simp add: deleted_simps delete_context_snd)

lemma no_write_in_Shutdown: "filter is_SysWrite (snd (Shutdown s)) = []"
  by (simp add: Shutdown_events)

lemma close_in_Shutdown:
  "filter is_SysClose (snd (Shutdown s)) =
     (if fst (ui_thread_looper_callback_pipe s) = - 1 then []
      else [SysClose (fst (ui_thread_looper_callback_pipe s))]) @
     (if snd (ui_thread_looper_callback_pipe s) = - 1 then []
      else [SysClose (snd (ui_thread_looper_callback_pipe s))])"
  by (simp add: Shutdown_events)

subsection \<open>Counting calls in Shutdown and Initialize\<close>

lemma Shutdown_acquire: "filter is_ALooper_acquire (snd (Shutdown s)) = []"
  by (simp add: Shutdown_events)

lemma Shutdown_release:
  "filter is_ALooper_release (snd (Shutdown s)) =
     (if ui_thread_looper s \<noteq> nullptr then [ALooper_release (ui_thread_looper s)] else [])"
  by (simp add: Shutdown_events)

lemma Shutdown_invoke:
  "filter is_InvokeOnDestroy (snd (Shutdown s)) =
     (if app s \<noteq> nullptr then [InvokeOnDestroy (app s)] else [])"
  by (simp add: Shutdown_events)

lemma if_distribs:
  "fst (if c then x else y) = (if c then fst x else fst y)"
  "snd (if c then x else y) = (if c then snd x else snd y)"
  "filter P (if c then xs else ys) = (if c then filter P xs else filter P ys)"
  "deleted (if c then xs else ys) = (if c then deleted xs else deleted ys)"
  by simp_all

lemma Initialize_succeeds:
  "fst (Initialize a jni_env activity_arg asset_manager_arg s0) =
     (obtains_looper a \<and> pipe_return a = 0 \<and> add_fd_return a = 1)"
  by (simp add: Initialize_def Let_def initialize_failed_def split_beta obtains_looper_def)

lemma Initialize_acquire:
  "filter is_ALooper_acquire (snd (snd (Initialize a jni_env activity_arg asset_manager_arg s0))) =
     (if obtains_looper a then [ALooper_acquire (looper_for_thread a)] else [])"
  apply (simp add: Initialize_def Let_def initialize_failed_def split_beta Shutdown_acquire
      if_distribs split del: if_split cong: if_cong)
  apply (simp add: obtains_looper_def)
  done

lemma Initialize_release:
  "ui_thread_looper s0 = nullptr \<Longrightarrow>
   filter is_ALooper_release (snd (snd (Initialize a jni_env activity_arg asset_manager_arg s0))) =
     (if obtains_looper a \<and> \<not> (pipe_return a = 0 \<and> add_fd_return a = 1)
      then [ALooper_release (looper_for_thread a)] else [])"
  apply (simp add: Initialize_def Let_def initialize_failed_def split_beta Shutdown_release
      if_distribs split del: if_split cong: if_cong)
  apply (simp add: obtains_looper_def)
  done

lemma Initialize_invoke:
  "app s0 = nullptr \<Longrightarrow>
   filter is_InvokeOnDestroy (snd (snd (Initialize a jni_env activity_arg asset_manager_arg s0))) = []"
  by (simp add: Initialize_def Let_def initialize_failed_def split_beta Shutdown_invoke
      if_distribs split del: if_split cong: if_cong)

lemma Initialize_not_deleted:
  "\<not> deleted (snd (snd (Initialize a jni_env activity_arg asset_manager_arg s0)))"
  by (simp add: Initialize_def Let_def initialize_failed_def split_beta not_deleted_Shutdown
      deleted_simps if_distribs split del: if_split cong: if_cong)

lemma Initialize_fields:
  "ui_thread_looper (fst (snd (Initialize a jni_env activity_arg asset_manager_arg s0))) =
     (if obtains_looper a \<and> pipe_return a = 0 \<and> add_fd_return a = 1
      then looper_for_thread a else nullptr)"
  "ui_thread_looper_callback_registered
     (fst (snd (Initialize a jni_env activity_arg asset_manager_arg s0))) =
     (obtains_looper a \<and> pipe_return a = 0 \<and> add_fd_return a = 1)"
  "app (fst (snd (Initialize a jni_env activity_arg asset_manager_arg s0))) =
     (if obtains_looper a \<and> pipe_return a = 0 \<and> add_fd_return a = 1 then app s0 else nullptr)"
  by (simp_all add: Initialize_def Let_def initialize_failed_def split_beta Shutdown_fields
      obtains_looper_def)

subsection \<open>Counting calls in the calls a context receives\<close>

lemma delete_context_filters:
  "filter is_ALooper_acquire (snd (delete_context s)) = []"
  "filter is_ALooper_release (snd (delete_context s)) =
     (if ui_thread_looper s \<noteq> nullptr then [ALooper_release (ui_thread_looper s)] else [])"
  "filter is_InvokeOnDestroy (snd (delete_context s)) =
     (if app s \<noteq> nullptr then [InvokeOnDestroy (app s)] else [])"
  by (simp_all add: delete_context_snd Shutdown_acquire Shutdown_release Shutdown_invoke)

lemma RequestDestruction_deleted:
  "deleted (snd (RequestDestruction sz w s)) =
     (\<not> ui_thread_looper_callback_registered s \<or> w \<noteq> int sz)"
  by (simp add: RequestDestruction_def split_beta deleted_simps deleted_delete_context)

lemma RequestDestruction_fst:
  "fst (RequestDestruction sz w s) =
     (if \<not> ui_thread_looper_callback_registered s \<or> w \<noteq> int sz then fst (Shutdown s) else s)"
  by (simp add: RequestDestruction_def split_beta delete_context_fst)

lemma RequestDestruction_filters:
  "filter is_ALooper_acquire (snd (RequestDestruction sz w s)) = []"
  "filter is_ALooper_release (snd (RequestDestruction sz w s)) =
     (if deleted (snd (RequestDestruction sz w s)) \<and> ui_thread_looper s \<noteq> nullptr
      then [ALooper_release (ui_thread_looper s)] else [])"
  "filter is_InvokeOnDestroy (snd (RequestDestruction sz w s)) =
     (if deleted (snd (RequestDestruction sz w s)) \<and> app s \<noteq> nullptr
      then [InvokeOnDestroy (app s)] else [])"
  unfolding RequestDestruction_deleted
  by (simp_all add: RequestDestruction_def split_beta delete_context_filters)

lemma JniActivityOnDestroy_deleted:
  "deleted (snd (JniActivityOnDestroy sz w s)) =
     (\<not> ui_thread_looper_callback_registered s \<or> w \<noteq> int sz)"
  by (simp add: JniActivityOnDestroy_def fst_then_do snd_then_do fst_blocks snd_blocks
      RequestDestruction_deleted deleted_simps)

lemma JniActivityOnDestroy_filters:
  "filter is_ALooper_acquire (snd (JniActivityOnDestroy sz w s)) = []"
  "filter is_ALooper_release (snd (JniActivityOnDestroy sz w s)) =
     (if deleted (snd (JniActivityOnDestroy sz w s)) \<and> ui_thread_looper s \<noteq> nullptr
      then [ALooper_release (ui_thread_looper s)] else [])"
  "app s = nullptr \<Longrightarrow> filter is_InvokeOnDestroy (snd (JniActivityOnDestroy sz w s)) = []"
  "ui_thread_looper (fst (JniActivityOnDestroy sz w s)) =
     (if deleted (snd (JniActivityOnDestroy sz w s)) then nullptr else ui_thread_looper s)"
  "app (fst (JniActivityOnDestroy sz w s)) = nullptr"
  unfolding JniActivityOnDestroy_deleted
  by (simp_all add: JniActivityOnDestroy_def fst_then_do snd_then_do fst_blocks snd_blocks
      RequestDestruction_filters RequestDestruction_deleted RequestDestruction_fst
      Shutdown_fields)

lemma UIThreadLooperCallback_deleted:
  "deleted (snd (snd (UIThreadLooperCallback sz fd events r command s))) =
     (events AND (ALOOPER_EVENT_ERROR OR ALOOPER_EVENT_HANGUP OR ALOOPER_EVENT_INVALID) = 0 \<and>
      events AND ALOOPER_EVENT_INPUT \<noteq> 0 \<and> r = int sz \<and> command = kDestroy)"
  by (cases command)
     (simp_all add: UIThreadLooperCallback_def split_beta deleted_simps deleted_delete_context)

lemma UIThreadLooperCallback_filters:
  "filter is_ALooper_acquire (snd (snd (UIThreadLooperCallback sz fd events r command s))) = []"
  "filter is_ALooper_release (snd (snd (UIThreadLooperCallback sz fd events r command s))) =
     (if deleted (snd (snd (UIThreadLooperCallback sz fd events r command s))) \<and>
         ui_thread_looper s \<noteq> nullptr
      then [ALooper_release (ui_thread_looper s)] else [])"
  "app s = nullptr \<Longrightarrow>
     filter is_InvokeOnDestroy (snd (snd (UIThreadLooperCallback sz fd events r command s))) = []"
  "ui_thread_looper (fst (snd (UIThreadLooperCallback sz fd events r command s))) =
     (if deleted (snd (snd (UIThreadLooperCallback sz fd events r command s)))
      then nullptr else ui_thread_looper s)"
  "app s = nullptr \<Longrightarrow>
     app (fst (snd (UIThreadLooperCallback sz fd events r command s))) = nullptr"
  unfolding UIThreadLooperCallback_deleted
  by (cases command;
      simp add: UIThreadLooperCallback_def split_beta delete_context_filters
        delete_context_fst Shutdown_fields)+

lemma perform_filters:
  "filter is_ALooper_acquire (snd (perform sz c s)) = []"
  "filter is_ALooper_release (snd (perform sz c s)) =
     (if deleted (snd (perform sz c s)) \<and> ui_thread_looper s \<noteq> nullptr
      then [ALooper_release (ui_thread_looper s)] else [])"
  "app s = nullptr \<Longrightarrow> filter is_InvokeOnDestroy (snd (perform sz c s)) = []"
  "ui_thread_looper (fst (perform sz c s)) =
     (if deleted (snd (perform sz c s)) then nullptr else ui_thread_looper s)"
  "app s = nullptr \<Longrightarrow> app (fst (perform sz c s)) = nullptr"
  by (cases c;
      simp add: UIThreadLooperCallback_filters JniActivityOnDestroy_filters
        RequestDestruction_filters RequestDestruction_fst RequestDestruction_deleted
        Shutdown_fields NotifyUILoopOfPendingFunctions_def
        PlatformQuitFromUIThread_def deleted_simps)+

lemma run_acquire: "filter is_ALooper_acquire (run sz s cs) = []"
  by (induction cs arbitrary: s) (simp_all add: split_beta perform_filters)

lemma run_release:
  "filter is_ALooper_release (run sz s cs) =
     (if deleted (run sz s cs) \<and> ui_thread_looper s \<noteq> nullptr
      then [ALooper_release (ui_thread_looper s)] else [])"
proof (induction cs arbitrary: s)
  case Nil
  show ?case by (simp add: deleted_simps)
next
  case (Cons c cs)
  show ?case
  proof (cases "deleted (snd (perform sz c s))")
    case True
    then show ?thesis by (simp add: split_beta perform_filters)
  next
    case False
    then show ?thesis
      by (simp add: split_beta perform_filters Cons.IH deleted_simps)
  qed
qed

lemma run_invoke: "app s = nullptr \<Longrightarrow> filter is_InvokeOnDestroy (run sz s cs) = []"
  by (induction cs arbitrary: s) (simp_all add: split_beta perform_filters)

subsection \<open>Counting calls in a whole life\<close>

lemma new_context_fields:
  "ui_thread_looper new_context = nullptr"
  "app new_context = nullptr"
  by (simp_all add: new_context_def)

lemma obtains_looper_nonnull: "obtains_looper a \<Longrightarrow> looper_for_thread a \<noteq> nullptr"
  by (simp add: obtains_looper_def)

lemma Initialize_new_context_release:
  "filter is_ALooper_release
     (snd (snd (Initialize a jni_env activity_arg asset_manager_arg new_context))) =
     (if obtains_looper a \<and> \<not> (pipe_return a = 0 \<and> add_fd_return a = 1)
      then [ALooper_release (looper_for_thread a)] else [])"
  by (rule Initialize_release) (rule new_context_fields)

lemma Initialize_new_context_invoke:
  "filter is_InvokeOnDestroy
     (snd (snd (Initialize a jni_env activity_arg asset_manager_arg new_context))) = []"
  by (rule Initialize_invoke) (rule new_context_fields)

lemma life_acquire:
  assumes "JniActivityInitializeWindowedAppOnCreate sz utf_chars creator_found a jni_env
             activity_arg asset_manager_arg created initialized w = Inr (returned, alive, t)"
  shows "filter is_ALooper_acquire (life sz (alive, t) cs) =
           (if utf_chars \<noteq> nullptr \<and> creator_found \<and> obtains_looper a
            then [ALooper_acquire (looper_for_thread a)] else [])"
  using assms
  by (auto simp: JniActivityInitializeWindowedAppOnCreate_def Let_def split_beta
      InitializeApp_def life_def Initialize_acquire Initialize_succeeds run_acquire
      delete_context_filters RequestDestruction_filters new_context_fields
      split: if_splits)

lemma life_release:
  assumes "JniActivityInitializeWindowedAppOnCreate sz utf_chars creator_found a jni_env
             activity_arg asset_manager_arg created initialized w = Inr (returned, alive, t)"
  shows "filter is_ALooper_release (life sz (alive, t) cs) =
           (if utf_chars \<noteq> nullptr \<and> creator_found \<and> obtains_looper a \<and>
               deleted (life sz (alive, t) cs)
            then [ALooper_release (looper_for_thread a)] else [])"
  using assms
  by (auto simp: JniActivityInitializeWindowedAppOnCreate_def Let_def split_beta
      InitializeApp_def life_def Initialize_new_context_release Initialize_succeeds
      Initialize_fields Initialize_not_deleted run_release deleted_simps
      delete_context_filters deleted_delete_context
      RequestDestruction_filters RequestDestruction_deleted RequestDestruction_fst
      new_context_fields
      dest: obtains_looper_nonnull split: if_splits)


lemma life_invoke:
  assumes "utf_chars \<noteq> nullptr"
    and "fst (Initialize a jni_env activity_arg asset_manager_arg new_context)"
    and "created \<noteq> nullptr"
  shows "\<exists>alive t.
           JniActivityInitializeWindowedAppOnCreate sz utf_chars True a jni_env
             activity_arg asset_manager_arg created False w = Inr (False, alive, t) \<and>
           filter is_InvokeOnDestroy (life sz (alive, t) cs) = [InvokeOnDestroy created] \<and>
           (\<forall>s. alive = Some s \<longrightarrow> app s = nullptr)"
  using assms
  by (simp add: JniActivityInitializeWindowedAppOnCreate_def Let_def split_beta
      InitializeApp_def life_def Initialize_new_context_invoke Initialize_fields
      Initialize_succeeds run_invoke RequestDestruction_filters RequestDestruction_fst
      RequestDestruction_deleted Shutdown_fields new_context_fields)

subsection \<open>C8: Shutdown is idempotent\<close>

text \<open>
  Claim C8. \<^verbatim>\<open>Shutdown\<close> is idempotent: it closes each of the two pipe descriptors that is
  open (not \<open>-1\<close>) and no other descriptor, leaves every member empty (the descriptors
  \<open>-1\<close>, the pointers null, the flags false), and a second \<^verbatim>\<open>Shutdown\<close> on the fields it
  left makes no call at all and leaves the fields as they are.
\<close>

theorem Shutdown_idempotent:
  "Shutdown (fst (Shutdown s)) = (fst (Shutdown s), []) \<and>
   filter is_SysClose (snd (Shutdown s)) =
     (if fst (ui_thread_looper_callback_pipe s) = - 1 then []
      else [SysClose (fst (ui_thread_looper_callback_pipe s))]) @
     (if snd (ui_thread_looper_callback_pipe s) = - 1 then []
      else [SysClose (snd (ui_thread_looper_callback_pipe s))]) \<and>
   ui_thread_looper_callback_pipe (fst (Shutdown s)) = (- 1, - 1) \<and>
   ui_thread_looper (fst (Shutdown s)) = nullptr \<and>
   \<not> ui_thread_looper_callback_registered (fst (Shutdown s)) \<and>
   app (fst (Shutdown s)) = nullptr \<and>
   activity_window (fst (Shutdown s)) = nullptr \<and>
   activity_method_finish (fst (Shutdown s)) = nullptr \<and>
   activity_class (fst (Shutdown s)) = nullptr \<and>
   activity (fst (Shutdown s)) = nullptr \<and>
   \<not> android_base_initialized (fst (Shutdown s)) \<and>
   configuration (fst (Shutdown s)) = nullptr \<and>
   asset_manager (fst (Shutdown s)) = nullptr \<and>
   asset_manager_jobject (fst (Shutdown s)) = nullptr \<and>
   ui_thread_jni_env (fst (Shutdown s)) = nullptr"
proof -
  have "Shutdown (fst (Shutdown s)) = (fst (Shutdown s), [])"
    by (rule Shutdown_twice)
  then show ?thesis
    by (simp add: close_in_Shutdown Shutdown_fields)
qed

theorem Shutdown_idempotent_witness:
  "snd (Shutdown (new_context\<lparr>ui_thread_looper := 7, ui_thread_looper_callback_pipe := (3, 4),
                               ui_thread_looper_callback_registered := True\<rparr>))
     = [ALooper_removeFd 7 3, SysClose 3, SysClose 4, ALooper_release 7] \<and>
   Shutdown (fst (Shutdown (new_context\<lparr>ui_thread_looper := 7,
       ui_thread_looper_callback_pipe := (3, 4), ui_thread_looper_callback_registered := True\<rparr>)))
     = (new_context, [])"
  using Shutdown_idempotent [of "new_context\<lparr>ui_thread_looper := 7,
       ui_thread_looper_callback_pipe := (3, 4), ui_thread_looper_callback_registered := True\<rparr>"]
  by (simp add: Shutdown_events Shutdown_fields new_context_def)

subsection \<open>C2: destruction of an unregistered context\<close>

text \<open>
  Claim C2. When the registration flag is false, \<^verbatim>\<open>RequestDestruction\<close> is exactly the
  \<^verbatim>\<open>delete\<close> of the context: the storage is released within the call, as its last act,
  and the call writes no command to the pipe, whatever a write would have returned.
\<close>

theorem RequestDestruction_unregistered:
  "\<not> ui_thread_looper_callback_registered s \<Longrightarrow>
   RequestDestruction sz w s = delete_context s \<and>
   deleted (snd (RequestDestruction sz w s)) \<and>
   last (snd (RequestDestruction sz w s)) = OperatorDelete \<and>
   filter is_SysWrite (snd (RequestDestruction sz w s)) = []"
  by (simp add: RequestDestruction_def deleted_simps delete_context_snd no_write_in_Shutdown)

theorem RequestDestruction_unregistered_witness:
  "\<not> ui_thread_looper_callback_registered new_context \<and>
   snd (RequestDestruction 1 1 new_context) = [OperatorDelete]"
  using RequestDestruction_unregistered [where s = new_context and sz = 1 and w = 1]
  by (simp add: new_context_def delete_context_snd Shutdown_events)

subsection \<open>C1: destruction of a registered context\<close>

text \<open>
  Claim C1 says that a registered context is never deleted within \<^verbatim>\<open>RequestDestruction\<close>.
  It is: when the write of the command fails. Here the context is registered, the write
  returns \<open>-1\<close>, and the call deletes the context.
\<close>

theorem RequestDestruction_registered_counterexample:
  "ui_thread_looper_callback_registered
     (new_context\<lparr>ui_thread_looper := 7, ui_thread_looper_callback_pipe := (3, 4),
                  ui_thread_looper_callback_registered := True\<rparr>) \<and>
   deleted (snd (RequestDestruction 1 (- 1)
     (new_context\<lparr>ui_thread_looper := 7, ui_thread_looper_callback_pipe := (3, 4),
                  ui_thread_looper_callback_registered := True\<rparr>)))"
  by (simp add: RequestDestruction_def split_beta deleted_simps delete_context_snd)


text \<open>
  Claim C1, amended. For a registered context, when the write transfers
  \<^verbatim>\<open>sizeof(command)\<close> bytes, \<^verbatim>\<open>RequestDestruction\<close> writes \<^verbatim>\<open>kDestroy\<close> to the write
  end of the pipe, wakes the looper, changes no member and does not delete the context;
  when the write transfers any other count, the failure is logged and the context is
  deleted within the call. The looper callback deletes the context exactly when its events
  carry input and no error bit, its read returns \<^verbatim>\<open>sizeof(command)\<close> and the command
  read is \<^verbatim>\<open>kDestroy\<close>.
\<close>

theorem RequestDestruction_registered:
  "ui_thread_looper_callback_registered s \<Longrightarrow>
   (w = int sz \<longrightarrow>
      RequestDestruction sz w s =
        (s, [SysWrite (snd (ui_thread_looper_callback_pipe s)) kDestroy,
             ALooper_wake (ui_thread_looper s)]) \<and>
      \<not> deleted (snd (RequestDestruction sz w s))) \<and>
   (w \<noteq> int sz \<longrightarrow>
      snd (RequestDestruction sz w s) =
        [SysWrite (snd (ui_thread_looper_callback_pipe s)) kDestroy,
         LogError message_write_destruction] @ snd (delete_context s) \<and>
      deleted (snd (RequestDestruction sz w s))) \<and>
   (deleted (snd (snd (UIThreadLooperCallback sz fd events r command s))) \<longleftrightarrow>
      events AND (ALOOPER_EVENT_ERROR OR ALOOPER_EVENT_HANGUP OR ALOOPER_EVENT_INVALID) = 0 \<and>
      events AND ALOOPER_EVENT_INPUT \<noteq> 0 \<and> r = int sz \<and> command = kDestroy)"
  by (cases command)
     (simp_all add: RequestDestruction_def UIThreadLooperCallback_def split_beta deleted_simps
        delete_context_snd not_deleted_Shutdown)

theorem RequestDestruction_registered_witness:
  "ui_thread_looper_callback_registered
     (new_context\<lparr>ui_thread_looper := 7, ui_thread_looper_callback_pipe := (3, 4),
                  ui_thread_looper_callback_registered := True\<rparr>) \<and>
   snd (RequestDestruction 1 1
     (new_context\<lparr>ui_thread_looper := 7, ui_thread_looper_callback_pipe := (3, 4),
                  ui_thread_looper_callback_registered := True\<rparr>))
     = [SysWrite 4 kDestroy, ALooper_wake 7] \<and>
   deleted (snd (snd (UIThreadLooperCallback 1 3 ALOOPER_EVENT_INPUT 1 kDestroy
     (new_context\<lparr>ui_thread_looper := 7, ui_thread_looper_callback_pipe := (3, 4),
                  ui_thread_looper_callback_registered := True\<rparr>))))"
  using RequestDestruction_registered [where s = "new_context\<lparr>ui_thread_looper := 7,
      ui_thread_looper_callback_pipe := (3, 4), ui_thread_looper_callback_registered := True\<rparr>"
      and w = 1 and sz = 1 and fd = 3 and events = ALOOPER_EVENT_INPUT and r = 1
      and command = kDestroy]
  by (simp add: new_context_def ALOOPER_EVENT_INPUT_def ALOOPER_EVENT_ERROR_def
      ALOOPER_EVENT_HANGUP_def ALOOPER_EVENT_INVALID_def)

subsection \<open>C3: fatal conditions in the callback\<close>

text \<open>
  Claim C3. When the events carry an error, hangup or invalid bit, and when the events
  carry input and the read returns \<open>-1\<close>, the callback returns 0, the only member it changes
  is the registration flag, which becomes false, and it logs an error and then calls
  \<^verbatim>\<open>QuitFromUIThread\<close>; it does not delete the context. The two cases differ only in the
  read, which the second has made, and in the text of the message.
\<close>

theorem UIThreadLooperCallback_fatal:
  "events AND (ALOOPER_EVENT_ERROR OR ALOOPER_EVENT_HANGUP OR ALOOPER_EVENT_INVALID) \<noteq> 0 \<or>
   events AND ALOOPER_EVENT_INPUT \<noteq> 0 \<and> r = - 1 \<Longrightarrow>
   fst (UIThreadLooperCallback sz fd events r command s) = 0 \<and>
   fst (snd (UIThreadLooperCallback sz fd events r command s)) =
     s\<lparr>ui_thread_looper_callback_registered := False\<rparr> \<and>
   snd (snd (UIThreadLooperCallback sz fd events r command s)) =
     (if events AND (ALOOPER_EVENT_ERROR OR ALOOPER_EVENT_HANGUP OR ALOOPER_EVENT_INVALID) \<noteq> 0
      then [LogError message_polling_error, QuitFromUIThread]
      else [SysRead fd, LogError message_reading_error, QuitFromUIThread]) \<and>
   \<not> deleted (snd (snd (UIThreadLooperCallback sz fd events r command s)))"
  by (auto simp: UIThreadLooperCallback_def deleted_simps)

theorem UIThreadLooperCallback_fatal_witness:
  "fst (UIThreadLooperCallback 1 3 ALOOPER_EVENT_HANGUP 0 kDestroy new_context) = 0 \<and>
   fst (UIThreadLooperCallback 1 3 ALOOPER_EVENT_INPUT (- 1) kDestroy new_context) = 0"
  using UIThreadLooperCallback_fatal [where events = ALOOPER_EVENT_HANGUP and r = 0 and sz = 1
      and fd = 3 and command = kDestroy and s = new_context]
    UIThreadLooperCallback_fatal [where events = ALOOPER_EVENT_INPUT and r = "- 1" and sz = 1
      and fd = 3 and command = kDestroy and s = new_context]
  by (simp add: ALOOPER_EVENT_INPUT_def ALOOPER_EVENT_ERROR_def
      ALOOPER_EVENT_HANGUP_def ALOOPER_EVENT_INVALID_def)

subsection \<open>C4: a partial read\<close>

text \<open>
  Claim C4. When the callback reads (its events carry input and no error bit) and the read
  returns neither \<^verbatim>\<open>sizeof(command)\<close> nor \<open>-1\<close>, the callback returns 1 and does nothing
  but the read: no member changes, so it stays registered, the context is not deleted, and
  neither \<^verbatim>\<open>QuitFromUIThread\<close> nor \<^verbatim>\<open>ExecutePendingFunctionsFromUIThread\<close> is called.
\<close>

theorem UIThreadLooperCallback_partial_read:
  "events AND (ALOOPER_EVENT_ERROR OR ALOOPER_EVENT_HANGUP OR ALOOPER_EVENT_INVALID) = 0 \<Longrightarrow>
   events AND ALOOPER_EVENT_INPUT \<noteq> 0 \<Longrightarrow> r \<noteq> int sz \<Longrightarrow> r \<noteq> - 1 \<Longrightarrow>
   UIThreadLooperCallback sz fd events r command s = (1, s, [SysRead fd]) \<and>
   \<not> deleted (snd (snd (UIThreadLooperCallback sz fd events r command s))) \<and>
   QuitFromUIThread \<notin> set (snd (snd (UIThreadLooperCallback sz fd events r command s))) \<and>
   ExecutePendingFunctionsFromUIThread
     \<notin> set (snd (snd (UIThreadLooperCallback sz fd events r command s)))"
  by (simp add: UIThreadLooperCallback_def deleted_simps)

theorem UIThreadLooperCallback_partial_read_witness:
  "UIThreadLooperCallback 4 3 ALOOPER_EVENT_INPUT 2 kDestroy
     (new_context\<lparr>ui_thread_looper_callback_registered := True\<rparr>)
   = (1, new_context\<lparr>ui_thread_looper_callback_registered := True\<rparr>, [SysRead 3])"
  using UIThreadLooperCallback_partial_read [where events = ALOOPER_EVENT_INPUT and r = 2
      and sz = 4 and fd = 3 and command = kDestroy
      and s = "new_context\<lparr>ui_thread_looper_callback_registered := True\<rparr>"]
  by (simp add: ALOOPER_EVENT_INPUT_def ALOOPER_EVENT_ERROR_def
      ALOOPER_EVENT_HANGUP_def ALOOPER_EVENT_INVALID_def)

subsection \<open>C5: a failed notification\<close>

text \<open>
  Claim C5. When the write of \<^verbatim>\<open>NotifyUILoopOfPendingFunctions\<close> returns anything but
  \<^verbatim>\<open>sizeof(command)\<close>, the function makes that one write, logs an error and returns: it
  writes once, does not wake the looper, and changes no member.
\<close>

theorem NotifyUILoopOfPendingFunctions_failed_write:
  "w \<noteq> int sz \<Longrightarrow>
   NotifyUILoopOfPendingFunctions sz w s =
     (s, [SysWrite (snd (ui_thread_looper_callback_pipe s)) kExecutePendingFunctions,
          LogError message_write_pending_functions])"
  by (simp add: NotifyUILoopOfPendingFunctions_def)

theorem NotifyUILoopOfPendingFunctions_failed_write_witness:
  "NotifyUILoopOfPendingFunctions 1 (- 1)
      (new_context\<lparr>ui_thread_looper_callback_pipe := (3, 4)\<rparr>) =
     (new_context\<lparr>ui_thread_looper_callback_pipe := (3, 4)\<rparr>,
      [SysWrite 4 kExecutePendingFunctions, LogError message_write_pending_functions])"
  using NotifyUILoopOfPendingFunctions_failed_write [where w = "- 1" and sz = 1
      and s = "new_context\<lparr>ui_thread_looper_callback_pipe := (3, 4)\<rparr>"]
  by (simp add: new_context_def)

subsection \<open>C9: a creator that returns no application\<close>

text \<open>
  Claim C9. \<^verbatim>\<open>InitializeApp\<close> calls \<^verbatim>\<open>OnInitialize()\<close> through the pointer the creator
  returned without testing it: for a null application the call through the null pointer is
  reached, and that happens for a null application only.
\<close>

theorem InitializeApp_null_application:
  "InitializeApp nullptr initialized s = Inl NullPointerDereference \<and>
   (isl (InitializeApp created initialized s) \<longleftrightarrow> created = nullptr)"
  by (simp add: InitializeApp_def Let_def)

theorem InitializeApp_null_application_witness:
  "InitializeApp nullptr True new_context = Inl NullPointerDereference \<and>
   \<not> isl (InitializeApp 5 True new_context)"
  using InitializeApp_null_application [where initialized = True and s = new_context
      and created = 5]
  by simp

subsection \<open>C10: the value the callback returns\<close>

text \<open>
  Claim C10. The callback returns 0 or 1. When it returns 0 the registration flag is false
  afterwards; when it returns 1 no member has changed and the context is not deleted. So
  for a registered context it returns 0 exactly when it has set the flag to false. With no
  error bit and no input in the events it returns 1 and makes no call, so it reads nothing
  from the pipe.
\<close>

theorem UIThreadLooperCallback_return_value:
  "(fst (UIThreadLooperCallback sz fd events r command s) = 0 \<or>
    fst (UIThreadLooperCallback sz fd events r command s) = 1) \<and>
   (fst (UIThreadLooperCallback sz fd events r command s) = 0 \<longrightarrow>
      \<not> ui_thread_looper_callback_registered
          (fst (snd (UIThreadLooperCallback sz fd events r command s)))) \<and>
   (fst (UIThreadLooperCallback sz fd events r command s) = 1 \<longrightarrow>
      fst (snd (UIThreadLooperCallback sz fd events r command s)) = s \<and>
      \<not> deleted (snd (snd (UIThreadLooperCallback sz fd events r command s)))) \<and>
   (ui_thread_looper_callback_registered s \<longrightarrow>
      (fst (UIThreadLooperCallback sz fd events r command s) = 0 \<longleftrightarrow>
       \<not> ui_thread_looper_callback_registered
           (fst (snd (UIThreadLooperCallback sz fd events r command s))))) \<and>
   (events AND (ALOOPER_EVENT_ERROR OR ALOOPER_EVENT_HANGUP OR ALOOPER_EVENT_INVALID) = 0 \<and>
    events AND ALOOPER_EVENT_INPUT = 0 \<longrightarrow>
      UIThreadLooperCallback sz fd events r command s = (1, s, []))"
  by (cases command)
     (simp_all add: UIThreadLooperCallback_def split_beta deleted_simps delete_context_fst
        Shutdown_fields)

theorem UIThreadLooperCallback_return_value_witness:
  "UIThreadLooperCallback 1 3 ALOOPER_EVENT_OUTPUT 0 kDestroy
     (new_context\<lparr>ui_thread_looper_callback_registered := True\<rparr>)
   = (1, new_context\<lparr>ui_thread_looper_callback_registered := True\<rparr>, []) \<and>
   fst (UIThreadLooperCallback 1 3 ALOOPER_EVENT_INPUT 1 kDestroy
     (new_context\<lparr>ui_thread_looper_callback_registered := True\<rparr>)) = 0"
  using UIThreadLooperCallback_return_value [where sz = 1 and fd = 3
      and events = ALOOPER_EVENT_OUTPUT and r = 0 and command = kDestroy
      and s = "new_context\<lparr>ui_thread_looper_callback_registered := True\<rparr>"]
    UIThreadLooperCallback_return_value [where sz = 1 and fd = 3
      and events = ALOOPER_EVENT_INPUT and r = 1 and command = kDestroy
      and s = "new_context\<lparr>ui_thread_looper_callback_registered := True\<rparr>"]
  by (simp add: ALOOPER_EVENT_INPUT_def ALOOPER_EVENT_ERROR_def ALOOPER_EVENT_OUTPUT_def
      ALOOPER_EVENT_HANGUP_def ALOOPER_EVENT_INVALID_def UIThreadLooperCallback_def split_beta)

subsection \<open>C6: an application that fails to initialize\<close>

text \<open>
  Claim C6. When the creation reaches \<^verbatim>\<open>InitializeApp\<close> (the identifier string and
  the creator were obtained and \<^verbatim>\<open>Initialize\<close> succeeded), the creator returns an
  application and its \<^verbatim>\<open>OnInitialize()\<close> returns false, then \<^verbatim>\<open>InitializeApp\<close> calls
  \<^verbatim>\<open>InvokeOnDestroy()\<close> on it, clears \<^verbatim>\<open>app_\<close> and returns false, the JNI entry point
  returns null, and in the whole life of the context, whatever calls it receives afterwards
  and whether the write of the destruction command succeeds or not, \<^verbatim>\<open>InvokeOnDestroy()\<close>
  is called exactly once, on that application; a context that still exists when the entry
  point returns holds no application.
\<close>

theorem OnInitialize_failure:
  assumes "utf_chars \<noteq> nullptr"
    and "fst (Initialize a jni_env activity_arg asset_manager_arg new_context)"
    and "created \<noteq> nullptr"
  shows "InitializeApp created False s =
           Inr (False, s\<lparr>app := nullptr\<rparr>,
                AppCreator # (if app s \<noteq> nullptr then [AppReset (app s)] else []) @
                [OnInitialize created, InvokeOnDestroy created, AppReset created]) \<and>
         (\<exists>alive t.
            JniActivityInitializeWindowedAppOnCreate sz utf_chars True a jni_env
              activity_arg asset_manager_arg created False w = Inr (False, alive, t) \<and>
            filter is_InvokeOnDestroy (life sz (alive, t) cs) = [InvokeOnDestroy created] \<and>
            (\<forall>s'. alive = Some s' \<longrightarrow> app s' = nullptr))"
proof
  show "InitializeApp created False s =
           Inr (False, s\<lparr>app := nullptr\<rparr>,
                AppCreator # (if app s \<noteq> nullptr then [AppReset (app s)] else []) @
                [OnInitialize created, InvokeOnDestroy created, AppReset created])"
    using assms(3) by (simp add: InitializeApp_def Let_def)
next
  show "\<exists>alive t.
            JniActivityInitializeWindowedAppOnCreate sz utf_chars True a jni_env
              activity_arg asset_manager_arg created False w = Inr (False, alive, t) \<and>
            filter is_InvokeOnDestroy (life sz (alive, t) cs) = [InvokeOnDestroy created] \<and>
            (\<forall>s'. alive = Some s' \<longrightarrow> app s' = nullptr)"
    using assms by (rule life_invoke)
qed

theorem OnInitialize_failure_witness:
  "(case JniActivityInitializeWindowedAppOnCreate 4 5 True
           \<lparr>asset_manager_global_ref = 11, asset_manager_from_java = 12,
            configuration_new = 13, sdk_version = 30, activity_global_ref = 14,
            activity_object_class = 15, activity_class_global_ref = 16,
            method_id_finish = 17, looper_for_thread = 9, pipe_return = 0,
            pipe_descriptors = (3, 4), add_fd_return = 1\<rparr> 21 22 23 6 False 4 of
      Inl e \<Rightarrow> False
    | Inr x \<Rightarrow>
        \<not> fst x \<and>
        filter is_InvokeOnDestroy
          (life 4 (snd x) [CallUIThreadLooperCallback 3 ALOOPER_EVENT_INPUT 4 kDestroy]) =
          [InvokeOnDestroy 6])"
proof -
  let ?a = "\<lparr>asset_manager_global_ref = 11, asset_manager_from_java = 12,
            configuration_new = 13, sdk_version = 30, activity_global_ref = 14,
            activity_object_class = 15, activity_class_global_ref = 16,
            method_id_finish = 17, looper_for_thread = 9, pipe_return = 0,
            pipe_descriptors = (3, 4), add_fd_return = 1\<rparr>"
  have ok: "fst (Initialize ?a 21 22 23 new_context)"
    by (simp add: Initialize_succeeds obtains_looper_def)
  have "(5::nat) \<noteq> nullptr" and "(6::nat) \<noteq> nullptr"
    by simp_all
  from OnInitialize_failure [OF this(1) ok this(2), where sz = 4 and w = 4
      and s = new_context
      and cs = "[CallUIThreadLooperCallback 3 ALOOPER_EVENT_INPUT 4 kDestroy]"]
  show ?thesis by auto
qed

subsection \<open>C7: the looper is acquired and released at most once\<close>

text \<open>
  Claim C7. \<^verbatim>\<open>Initialize\<close> acquires the looper exactly once when it obtains one (every
  step before \<^verbatim>\<open>ALooper_forThread\<close> succeeded and it returned a looper) and never
  otherwise. \<^verbatim>\<open>Shutdown\<close> releases the looper exactly once when the member holds one, never
  otherwise, and leaves the member null. In the whole life of a context, from the JNI entry
  point that creates it through any calls it receives until it is deleted, the looper is
  acquired exactly once if the creation obtains it and never otherwise, and it is released
  exactly once if it was acquired and the context has been shut down and deleted, never
  otherwise. (A creation that calls through a null application has no defined life.)
\<close>

theorem looper_acquired_and_released_once:
  "filter is_ALooper_acquire
     (snd (snd (Initialize a jni_env activity_arg asset_manager_arg s0))) =
     (if obtains_looper a then [ALooper_acquire (looper_for_thread a)] else []) \<and>
   filter is_ALooper_release (snd (Shutdown s)) =
     (if ui_thread_looper s \<noteq> nullptr then [ALooper_release (ui_thread_looper s)] else []) \<and>
   ui_thread_looper (fst (Shutdown s)) = nullptr \<and>
   (JniActivityInitializeWindowedAppOnCreate sz utf_chars creator_found a jni_env
      activity_arg asset_manager_arg created initialized w = Inr (returned, alive, t) \<longrightarrow>
    filter is_ALooper_acquire (life sz (alive, t) cs) =
      (if utf_chars \<noteq> nullptr \<and> creator_found \<and> obtains_looper a
       then [ALooper_acquire (looper_for_thread a)] else []) \<and>
    filter is_ALooper_release (life sz (alive, t) cs) =
      (if utf_chars \<noteq> nullptr \<and> creator_found \<and> obtains_looper a \<and>
          deleted (life sz (alive, t) cs)
       then [ALooper_release (looper_for_thread a)] else []))"
  using life_acquire [of sz utf_chars creator_found a jni_env activity_arg asset_manager_arg
      created initialized w returned alive t cs]
    life_release [of sz utf_chars creator_found a jni_env activity_arg asset_manager_arg
      created initialized w returned alive t cs]
  by (simp add: Initialize_acquire Shutdown_release Shutdown_fields)

theorem looper_acquired_and_released_once_witness:
  "(case JniActivityInitializeWindowedAppOnCreate 4 5 True
           \<lparr>asset_manager_global_ref = 11, asset_manager_from_java = 12,
            configuration_new = 13, sdk_version = 30, activity_global_ref = 14,
            activity_object_class = 15, activity_class_global_ref = 16,
            method_id_finish = 17, looper_for_thread = 9, pipe_return = 0,
            pipe_descriptors = (3, 4), add_fd_return = 1\<rparr> 21 22 23 6 True 4 of
      Inl e \<Rightarrow> False
    | Inr x \<Rightarrow>
        fst x \<and>
        filter is_ALooper_acquire
          (life 4 (snd x) [CallUIThreadLooperCallback 3 ALOOPER_EVENT_INPUT 4 kDestroy]) =
          [ALooper_acquire 9] \<and>
        filter is_ALooper_release
          (life 4 (snd x) [CallUIThreadLooperCallback 3 ALOOPER_EVENT_INPUT 4 kDestroy]) =
          [ALooper_release 9])"
proof -
  let ?a = "\<lparr>asset_manager_global_ref = 11, asset_manager_from_java = 12,
            configuration_new = 13, sdk_version = 30, activity_global_ref = 14,
            activity_object_class = 15, activity_class_global_ref = 16,
            method_id_finish = 17, looper_for_thread = 9, pipe_return = 0,
            pipe_descriptors = (3, 4), add_fd_return = 1\<rparr>"
  let ?s = "(fst (snd (Initialize ?a 21 22 23 new_context)))\<lparr>app := 6\<rparr>"
  let ?t = "[ReleaseStringUTFChars 5, OperatorNew] @ snd (snd (Initialize ?a 21 22 23 new_context))
            @ [AppCreator, OnInitialize 6]"
  let ?cs = "[CallUIThreadLooperCallback 3 ALOOPER_EVENT_INPUT 4 kDestroy]"
  have created: "JniActivityInitializeWindowedAppOnCreate 4 5 True ?a 21 22 23 6 True 4 =
      Inr (True, Some ?s, ?t)"
    by (simp add: JniActivityInitializeWindowedAppOnCreate_def split_beta Let_def
        Initialize_succeeds Initialize_fields obtains_looper_def InitializeApp_def
        new_context_fields)
  have gone: "deleted (life 4 (Some ?s, ?t) ?cs)"
    by (simp add: life_def deleted_simps split_beta UIThreadLooperCallback_deleted
        ALOOPER_EVENT_INPUT_def ALOOPER_EVENT_ERROR_def ALOOPER_EVENT_HANGUP_def
        ALOOPER_EVENT_INVALID_def)
  from looper_acquired_and_released_once [where sz = 4 and utf_chars = 5
      and creator_found = True and a = ?a and jni_env = 21 and activity_arg = 22
      and asset_manager_arg = 23 and created = 6 and initialized = True and w = 4
      and returned = True and alive = "Some ?s" and t = ?t and cs = ?cs] created gone
  show ?thesis by (simp add: obtains_looper_def)
qed

end
